theory Spec2Isabelle
  imports Main
begin

section \<open>Apex values, types and exceptions\<close>

text \<open>
  The mocking framework is the Apex class \<open>MockProvider\<close>. An Apex \<open>Object\<close> reference is
  either \<open>null\<close> or a value, so an object of value type \<open>'v\<close> is a \<open>'v option\<close> with
  \<open>None\<close> for \<open>null\<close>. The runtime exceptions the class can raise are the
  dereference of \<open>null\<close> and a list index out of bounds.
\<close>

datatype apex_exception = NullPointerException | ListException

text \<open>A \<open>System.Type\<close> descriptor; \<open>getName\<close> is its only method used.\<close>

datatype apex_type = ApexType (getName: string)

text \<open>\<open>List.get(i)\<close> raises \<open>ListException\<close> outside the list.\<close>

definition List_get :: "'a list \<Rightarrow> nat \<Rightarrow> apex_exception + 'a" where
  "List_get xs i = (if i < length xs then Inr (xs ! i) else Inl ListException)"

text \<open>
  \<open>Map<String, Object>\<close>: keys are nullable strings (an Apex map accepts the \<open>null\<close> key),
  values are nullable objects. \<open>put\<close> is an unconditional upsert; \<open>get\<close> answers \<open>null\<close>
  both for a missing key and for a key mapped to \<open>null\<close>.
\<close>

type_synonym 'v registry = "string option \<rightharpoonup> 'v option"

definition Map_put :: "'v registry \<Rightarrow> string option \<Rightarrow> 'v option \<Rightarrow> 'v registry" where
  "Map_put m k v = m(k \<mapsto> v)"

definition Map_get :: "'v registry \<Rightarrow> string option \<Rightarrow> 'v option" where
  "Map_get m k = (case m k of None \<Rightarrow> None | Some v \<Rightarrow> v)"

definition Map_containsKey :: "'v registry \<Rightarrow> string option \<Rightarrow> bool" where
  "Map_containsKey m k = (m k \<noteq> None)"

text \<open>
  \<open>String.join(iterable, separator)\<close> is a method of the platform. It writes the string
  form of each element with the separator between neighbours. The string form of an
  element is the platform's; it is the parameter \<open>str\<close> of the model, so that every
  general theorem below holds whatever the platform prints for a value.
\<close>

fun String_join :: "('v option \<Rightarrow> string) \<Rightarrow> 'v option list \<Rightarrow> string \<Rightarrow> string" where
  "String_join str [] sep = []"
| "String_join str [x] sep = str x"
| "String_join str (x # y # ys) sep = str x @ sep @ String_join str (y # ys) sep"

subsection \<open>A concrete value type\<close>

text \<open>
  For the statements that name concrete arguments (\<open>1\<close>, \<open>2\<close>, \<open>"1,2"\<close>) the values are
  Apex primitives: an \<open>Integer\<close> prints in decimal, a \<open>String\<close> prints as itself, a
  \<open>Boolean\<close> as \<open>true\<close> or \<open>false\<close>. For \<open>null\<close> the empty string is taken; no statement
  below passes a \<open>null\<close> argument to \<open>apexStr\<close>.
\<close>

datatype apex_value = AInteger int | AString string | ABoolean bool

definition digitChar :: "nat \<Rightarrow> char" where
  "digitChar d = ''0123456789'' ! (d mod 10)"

function natStr :: "nat \<Rightarrow> string" where
  "natStr n = (if n < 10 then [digitChar n] else natStr (n div 10) @ [digitChar (n mod 10)])"
  by pat_completeness auto
termination
  by (relation "measure (\<lambda>n. n)") auto

declare natStr.simps [simp del]

definition intStr :: "int \<Rightarrow> string" where
  "intStr i = (if i < 0 then CHR ''-'' # natStr (nat (- i)) else natStr (nat i))"

fun apexStr :: "apex_value option \<Rightarrow> string" where
  "apexStr None = []"
| "apexStr (Some (AInteger i)) = intStr i"
| "apexStr (Some (AString s)) = s"
| "apexStr (Some (ABoolean b)) = (if b then ''true'' else ''false'')"

section \<open>The MockProvider class\<close>

text \<open>
  The three fields of the class. The constructor assigns \<open>mockReturnValues\<close> only, so
  \<open>isSettingMockValue\<close> and \<open>serializedMethodCall\<close> of a new provider are \<open>null\<close>.
\<close>

record 'v MockProvider =
  mockReturnValues :: "'v registry"
  isSettingMockValue :: "bool option"
  serializedMethodCall :: "string option"

definition MockProvider_new :: "'v MockProvider" where
  "MockProvider_new =
     \<lparr>mockReturnValues = Map.empty, isSettingMockValue = None, serializedMethodCall = None\<rparr>"

definition startSettingMockValue :: "'v MockProvider \<Rightarrow> 'v MockProvider" where
  "startSettingMockValue this = this\<lparr>isSettingMockValue := Some True\<rparr>"

definition stopSettingMockValue :: "'v MockProvider \<Rightarrow> 'v MockProvider" where
  "stopSettingMockValue this = this\<lparr>isSettingMockValue := Some False\<rparr>"

text \<open>\<open>setMock\<close> returns \<open>this\<close>: the provider after the flag is set.\<close>

definition setMock :: "'v MockProvider \<Rightarrow> 'v MockProvider" where
  "setMock this = startSettingMockValue this"

text \<open>
  \<open>mockReturnValue(returnValue, mockReturnValue)\<close>: the first parameter is not read. The
  method has no check and no \<open>throw\<close>; the map exists since the constructor ran.
\<close>

definition mockReturnValue :: "'v option \<Rightarrow> 'v option \<Rightarrow> 'v MockProvider \<Rightarrow> 'v MockProvider" where
  "mockReturnValue returnValue mockValue this =
     stopSettingMockValue
       (this\<lparr>mockReturnValues := Map_put (mockReturnValues this) (serializedMethodCall this) mockValue,
             serializedMethodCall := None\<rparr>)"

definition serializeMethodCall :: "('v option \<Rightarrow> string) \<Rightarrow> string \<Rightarrow> 'v option list \<Rightarrow> string" where
  "serializeMethodCall str stubbedMethodName listOfArgs =
     stubbedMethodName @ ''('' @ String_join str listOfArgs '','' @ '')''"

text \<open>
  The logging loop of \<open>handleMethodCall\<close>, from index \<open>i\<close> on. What \<open>System.debug\<close>
  prints is not part of the provider; what the loop can do to the call is raise, when
  \<open>listOfParamTypes\<close> is shorter than \<open>listOfParamNames\<close>.
\<close>

function debugParams :: "apex_type list \<Rightarrow> string list \<Rightarrow> nat \<Rightarrow> apex_exception + unit" where
  "debugParams listOfParamTypes listOfParamNames i =
     (if i < length listOfParamNames then
        (case List_get listOfParamNames i of
           Inl e \<Rightarrow> Inl e
         | Inr paramName \<Rightarrow>
             (case List_get listOfParamTypes i of
                Inl e \<Rightarrow> Inl e
              | Inr paramType \<Rightarrow> debugParams listOfParamTypes listOfParamNames (Suc i)))
      else Inr ())"
  by pat_completeness auto
termination
  by (relation "measure (\<lambda>(ts, ns, i). length ns - i)") auto

declare debugParams.simps [simp del]

text \<open>
  \<open>handleMethodCall\<close>. The condition \<open>if (isSettingMockValue)\<close> reads a \<open>Boolean\<close> field:
  on \<open>null\<close> Apex raises \<open>NullPointerException\<close>. The result is the returned object and
  the provider after the call.
\<close>

definition handleMethodCall ::
  "('v option \<Rightarrow> string) \<Rightarrow> 'v option \<Rightarrow> string \<Rightarrow> apex_type \<Rightarrow> apex_type list \<Rightarrow> string list \<Rightarrow>
   'v option list \<Rightarrow> 'v MockProvider \<Rightarrow> apex_exception + ('v option \<times> 'v MockProvider)" where
  "handleMethodCall str stubbedObject stubbedMethodName returnType listOfParamTypes
     listOfParamNames listOfArgs this =
     (case debugParams listOfParamTypes listOfParamNames 0 of
        Inl e \<Rightarrow> Inl e
      | Inr _ \<Rightarrow>
          (let call = serializeMethodCall str stubbedMethodName listOfArgs in
           case isSettingMockValue this of
             None \<Rightarrow> Inl NullPointerException
           | Some True \<Rightarrow> Inr (None, this\<lparr>serializedMethodCall := Some call\<rparr>)
           | Some False \<Rightarrow> Inr (Map_get (mockReturnValues this) (Some call), this)))"

section \<open>Sequences of operations on one provider\<close>

text \<open>
  A call made on the stub object reaches \<open>handleMethodCall\<close> with the six arguments the
  Stub API supplies.
\<close>

record 'v invocation =
  stubbedObject :: "'v option"
  stubbedMethodName :: string
  returnType :: apex_type
  listOfParamTypes :: "apex_type list"
  listOfParamNames :: "string list"
  listOfArgs :: "'v option list"

definition intercept ::
  "('v option \<Rightarrow> string) \<Rightarrow> 'v invocation \<Rightarrow> 'v MockProvider \<Rightarrow>
   apex_exception + ('v option \<times> 'v MockProvider)" where
  "intercept str c this =
     handleMethodCall str (stubbedObject c) (stubbedMethodName c) (returnType c)
       (listOfParamTypes c) (listOfParamNames c) (listOfArgs c) this"

definition signature :: "('v option \<Rightarrow> string) \<Rightarrow> 'v invocation \<Rightarrow> string" where
  "signature str c = serializeMethodCall str (stubbedMethodName c) (listOfArgs c)"

text \<open>
  The Stub API passes one type for each parameter name. The logging loop needs less:
  that the list of types is not the shorter one.
\<close>

definition wellFormed :: "'v invocation \<Rightarrow> bool" where
  "wellFormed c = (length (listOfParamNames c) \<le> length (listOfParamTypes c))"

datatype 'v event =
    SetMock
  | Invoke "'v invocation"
  | MockReturnValue "'v option" "'v option"

text \<open>
  One operation of the public interface, with its outcome: the provider afterwards, or
  the exception raised.
\<close>

fun exec :: "('v option \<Rightarrow> string) \<Rightarrow> 'v event \<Rightarrow> 'v MockProvider \<Rightarrow> apex_exception + 'v MockProvider" where
  "exec str SetMock this = Inr (setMock this)"
| "exec str (Invoke c) this =
     (case intercept str c this of Inl e \<Rightarrow> Inl e | Inr (r, this') \<Rightarrow> Inr this')"
| "exec str (MockReturnValue returnValue mockValue) this =
     Inr (mockReturnValue returnValue mockValue this)"

text \<open>
  A raised exception leaves the provider as it was: \<open>handleMethodCall\<close> assigns no field
  before it can raise.
\<close>

definition step :: "('v option \<Rightarrow> string) \<Rightarrow> 'v MockProvider \<Rightarrow> 'v event \<Rightarrow> 'v MockProvider" where
  "step str this e = (case exec str e this of Inl _ \<Rightarrow> this | Inr this' \<Rightarrow> this')"

definition run :: "('v option \<Rightarrow> string) \<Rightarrow> 'v event list \<Rightarrow> 'v MockProvider \<Rightarrow> 'v MockProvider" where
  "run str es this = foldl (step str) this es"

text \<open>A sequence of operations in which nothing catches: the first exception ends it.\<close>

fun execAll :: "('v option \<Rightarrow> string) \<Rightarrow> 'v event list \<Rightarrow> 'v MockProvider \<Rightarrow> apex_exception + 'v MockProvider" where
  "execAll str [] this = Inr this"
| "execAll str (e # es) this =
     (case exec str e this of Inl x \<Rightarrow> Inl x | Inr this' \<Rightarrow> execAll str es this')"





subsection \<open>The example calls of the repository's test\<close>

text \<open>
  \<open>TodoService.getTodos()\<close> and \<open>TodoService.addTodo(String name)\<close>, as the stub receives
  them, and a method \<open>add(Integer a, Integer b)\<close> for the examples with two arguments (its
  argument list is filled in where it is used).
\<close>

definition getTodos :: "apex_value invocation" where
  "getTodos =
     \<lparr>stubbedObject = None, stubbedMethodName = ''getTodos'',
      returnType = ApexType ''List<Todo__c>'', listOfParamTypes = [],
      listOfParamNames = [], listOfArgs = []\<rparr>"

definition addTodo :: "string \<Rightarrow> apex_value invocation" where
  "addTodo name =
     \<lparr>stubbedObject = None, stubbedMethodName = ''addTodo'',
      returnType = ApexType ''void'', listOfParamTypes = [ApexType ''String''],
      listOfParamNames = [''name''], listOfArgs = [Some (AString name)]\<rparr>"

definition add :: "apex_value invocation" where
  "add =
     \<lparr>stubbedObject = None, stubbedMethodName = ''add'',
      returnType = ApexType ''String'', listOfParamTypes = [ApexType ''Integer'', ApexType ''Integer''],
      listOfParamNames = [''a'', ''b''], listOfArgs = []\<rparr>"


section \<open>Basic facts\<close>

lemma debugParams_aligned:
  "length ns \<le> length ts \<Longrightarrow> debugParams ts ns i = Inr ()"
proof (induction ts ns i rule: debugParams.induct)
  case (1 ts ns i)
  show ?case
  proof (cases "i < length ns")
    case True
    with 1 show ?thesis
      by (subst debugParams.simps) (simp add: List_get_def)
  next
    case False
    then show ?thesis by (subst debugParams.simps) simp
  qed
qed

lemma handleMethodCall_aligned:
  assumes "length ns \<le> length ts"
  shows "handleMethodCall str so m rt ts ns a p =
    (case isSettingMockValue p of
       None \<Rightarrow> Inl NullPointerException
     | Some True \<Rightarrow> Inr (None, p\<lparr>serializedMethodCall := Some (serializeMethodCall str m a)\<rparr>)
     | Some False \<Rightarrow> Inr (Map_get (mockReturnValues p) (Some (serializeMethodCall str m a)), p))"
  using assms by (simp add: handleMethodCall_def debugParams_aligned Let_def)

lemma intercept_wellFormed:
  assumes "wellFormed c"
  shows "intercept str c p =
    (case isSettingMockValue p of
       None \<Rightarrow> Inl NullPointerException
     | Some True \<Rightarrow> Inr (None, p\<lparr>serializedMethodCall := Some (signature str c)\<rparr>)
     | Some False \<Rightarrow> Inr (Map_get (mockReturnValues p) (Some (signature str c)), p))"
  using assms
  by (simp add: intercept_def wellFormed_def signature_def handleMethodCall_aligned
      split: option.splits bool.splits)

lemma wellFormed_listOfArgs [simp]: "wellFormed (c\<lparr>listOfArgs := a\<rparr>) = wellFormed c"
  by (simp add: wellFormed_def)

lemma wellFormed_getTodos [simp]: "wellFormed getTodos"
  by (simp add: wellFormed_def getTodos_def)

lemma wellFormed_addTodo [simp]: "wellFormed (addTodo n)"
  by (simp add: wellFormed_def addTodo_def)

lemma wellFormed_add [simp]: "wellFormed add"
  by (simp add: wellFormed_def add_def)

lemma signature_getTodos [simp]: "signature apexStr getTodos = ''getTodos()''"
  by (simp add: signature_def getTodos_def serializeMethodCall_def)

lemma signature_addTodo [simp]: "signature apexStr (addTodo n) = ''addTodo('' @ n @ '')''"
  by (simp add: signature_def addTodo_def serializeMethodCall_def)

lemma intStr_1 [simp]: "intStr 1 = ''1''"
  by (simp add: intStr_def natStr.simps digitChar_def)

lemma intStr_2 [simp]: "intStr 2 = ''2''"
  by (simp add: intStr_def natStr.simps digitChar_def)

lemmas provider_defs =
  setMock_def startSettingMockValue_def stopSettingMockValue_def mockReturnValue_def
  Map_put_def Map_get_def Map_containsKey_def

section \<open>Configuring a return value and reading it back\<close>

text \<open>
  Claim C1 (round trip). For every invocation \<open>c\<close> (method name and argument list), value
  \<open>v\<close> and provider \<open>p\<close>, Idle or not: \<open>setMock()\<close>, then the intercepted call \<open>c\<close>, then
  \<open>mockReturnValue(_, v)\<close> complete without an exception and leave the provider Idle,
  and the same call intercepted then returns exactly \<open>v\<close>.
\<close>

theorem roundtrip:
  assumes "wellFormed c"
  shows "case execAll str [SetMock, Invoke c, MockReturnValue ph v] p of
           Inl e \<Rightarrow> False
         | Inr p' \<Rightarrow> isSettingMockValue p' = Some False \<and> intercept str c p' = Inr (v, p')"
  using assms by (simp add: intercept_wellFormed provider_defs)

theorem roundtrip_witness:
  "wellFormed (addTodo ''milk'') \<and>
   (case execAll apexStr [SetMock, Invoke (addTodo ''milk''), MockReturnValue None (Some (ABoolean True))]
           MockProvider_new of
      Inl e \<Rightarrow> False
    | Inr p' \<Rightarrow> isSettingMockValue p' = Some False \<and>
        intercept apexStr (addTodo ''milk'') p' = Inr (Some (ABoolean True), p'))"
  using roundtrip [where c = "addTodo ''milk''" and str = apexStr and ph = None
      and v = "Some (ABoolean True)" and p = MockProvider_new]
  by simp

section \<open>Calls that were never configured\<close>

text \<open>
  Claim C2 (unconfigured call). The claim includes the provider just constructed. There
  \<open>isSettingMockValue\<close> is \<open>null\<close>, and the call \<open>getTodos()\<close> on the stub, with no
  \<open>setMock()\<close> before it, raises \<open>NullPointerException\<close> where the claim has it return
  the absence value.
\<close>

theorem fresh_provider_call_raises:
  "handleMethodCall apexStr None ''getTodos'' (ApexType ''List<Todo__c>'') [] [] [] MockProvider_new
     = Inl NullPointerException"
  by (simp add: handleMethodCall_aligned MockProvider_new_def)

text \<open>
  The same holds for every call on a new provider; once the flag has been assigned
  (after the first \<open>setMock()\<close>), a call whose signature is not a key of the registry
  returns \<open>null\<close> and does not raise.
\<close>

lemma new_provider_call_raises:
  "length ns \<le> length ts \<Longrightarrow>
   handleMethodCall str so m rt ts ns a MockProvider_new = Inl NullPointerException"
  by (simp add: handleMethodCall_aligned MockProvider_new_def)

lemma unconfigured_call_returns_null:
  assumes "length ns \<le> length ts" "isSettingMockValue p \<noteq> None"
    and "\<not> Map_containsKey (mockReturnValues p) (Some (serializeMethodCall str m a))"
  shows "map_sum id fst (handleMethodCall str so m rt ts ns a p) = Inr None"
  using assms
  by (auto simp add: handleMethodCall_aligned provider_defs split: option.splits bool.splits)

section \<open>Committing without a recorded call\<close>

text \<open>
  Claim C3 (misuse detection), as stated, fails: on a new provider, with no \<open>setMock()\<close>
  and no intercepted call, \<open>mockReturnValue\<close> completes and puts the value into the
  registry under the \<open>null\<close> key.
\<close>

theorem commit_without_recording_counterexample:
  "exec apexStr (MockReturnValue None (Some (AString ''x''))) MockProvider_new =
     Inr \<lparr>mockReturnValues = [None \<mapsto> Some (AString ''x'')], isSettingMockValue = Some False,
          serializedMethodCall = None\<rparr>"
  by (simp add: provider_defs MockProvider_new_def)

text \<open>
  Claim C3, amended. \<open>mockReturnValue\<close> raises in no state: it stores the value under
  the content of the pending slot, which is the \<open>null\<close> key when the slot is empty,
  clears the slot and sets the controller to Idle.
\<close>

theorem mockReturnValue_never_raises:
  "exec str (MockReturnValue r v) p =
     Inr (p\<lparr>mockReturnValues := (mockReturnValues p)(serializedMethodCall p \<mapsto> v),
            isSettingMockValue := Some False, serializedMethodCall := None\<rparr>)"
  by (simp add: provider_defs)

section \<open>The signature of a call without arguments\<close>

text \<open>
  Claim C5 (zero-argument signature), as stated, fails: the empty \<open>String\<close> prints as the
  empty string, and \<open>getTodos()\<close> and \<open>getTodos('')\<close> have the same signature.
\<close>

theorem zero_arg_signature_counterexample:
  "apexStr (Some (AString [])) = [] \<and>
   serializeMethodCall apexStr ''getTodos'' [] =
   serializeMethodCall apexStr ''getTodos'' [Some (AString [])]"
  by (simp add: serializeMethodCall_def)

text \<open>
  Claim C5, amended. The signature of a call of \<open>m\<close> without arguments is \<open>m()\<close>; it
  differs from the signature of a call of \<open>m\<close> with the one argument \<open>x\<close> exactly when
  the string form of \<open>x\<close> is not empty.
\<close>

theorem zero_arg_signature_distinct_iff:
  "serializeMethodCall str m [] = m @ ''()'' \<and>
   (serializeMethodCall str m [] \<noteq> serializeMethodCall str m [x]) = (str x \<noteq> [])"
  by (auto simp add: serializeMethodCall_def)

section \<open>What a call returns while recording\<close>

text \<open>
  Claim C6 (recording placeholder), as stated, fails: the call \<open>getTodos()\<close> made while
  recording returns \<open>null\<close>, which is also what \<open>getTodos()\<close> returns in Idle state after
  it was configured to return \<open>null\<close>.
\<close>

theorem recording_placeholder_counterexample:
  "map_sum id fst (intercept apexStr getTodos (setMock MockProvider_new)) = Inr None \<and>
   map_sum id fst (intercept apexStr getTodos
      (run apexStr [SetMock, Invoke getTodos, MockReturnValue None None] MockProvider_new)) = Inr None"
  by (simp add: intercept_wellFormed provider_defs run_def step_def MockProvider_new_def)

text \<open>
  Claim C6, amended. Whenever the controller is recording, an intercepted call stores
  its signature into the pending slot, changes nothing else, and returns \<open>null\<close>.
\<close>

theorem recording_call_returns_null:
  assumes "isSettingMockValue p = Some True" "length ns \<le> length ts"
  shows "handleMethodCall str so m rt ts ns a p =
           Inr (None, p\<lparr>serializedMethodCall := Some (serializeMethodCall str m a)\<rparr>)"
  using assms by (simp add: handleMethodCall_aligned)

theorem recording_call_returns_null_witness:
  "isSettingMockValue (setMock (MockProvider_new :: apex_value MockProvider)) = Some True \<and>
   length [''name''] \<le> length [ApexType ''String''] \<and>
   handleMethodCall apexStr None ''addTodo'' (ApexType ''void'') [ApexType ''String''] [''name'']
       [Some (AString ''milk'')] (setMock MockProvider_new) =
     Inr (None, \<lparr>mockReturnValues = Map.empty, isSettingMockValue = Some True,
                 serializedMethodCall = Some ''addTodo(milk)''\<rparr>)"
  using recording_call_returns_null [where p = "setMock MockProvider_new" and ns = "[''name'']"
      and ts = "[ApexType ''String'']" and str = apexStr and so = None and m = "''addTodo''"
      and rt = "ApexType ''void''" and a = "[Some (AString ''milk'')]"]
  by (simp add: provider_defs MockProvider_new_def serializeMethodCall_def)

section \<open>A return value of null\<close>

text \<open>
  Claim C4 (configured null), as stated, fails: \<open>getTodos()\<close> configured to return \<open>null\<close>
  and \<open>getTodos()\<close> never configured (only \<open>addTodo('milk')\<close> was) give the same result
  when intercepted in Idle state.
\<close>

theorem configured_null_counterexample:
  "map_sum id fst (intercept apexStr getTodos
      (run apexStr [SetMock, Invoke getTodos, MockReturnValue None None] MockProvider_new)) = Inr None \<and>
   map_sum id fst (intercept apexStr getTodos
      (run apexStr [SetMock, Invoke (addTodo ''milk''), MockReturnValue None (Some (ABoolean True))]
         MockProvider_new)) = Inr None"
  by (simp add: intercept_wellFormed provider_defs run_def step_def MockProvider_new_def)

text \<open>
  Claim C4, amended. A call configured to return \<open>null\<close> returns \<open>null\<close> when intercepted
  in Idle state, and so does a call whose signature is not a key of the registry of an
  Idle provider: the result of \<open>handleMethodCall\<close> does not tell them apart. The registry
  does: the configured signature is one of its keys.
\<close>

theorem configured_null_not_observable:
  assumes "wellFormed c" "isSettingMockValue q = Some False"
    and "\<not> Map_containsKey (mockReturnValues q) (Some (signature str c))"
  shows "case execAll str [SetMock, Invoke c, MockReturnValue ph None] p of
           Inl e \<Rightarrow> False
         | Inr p' \<Rightarrow>
             map_sum id fst (intercept str c p') = Inr None \<and>
             map_sum id fst (intercept str c q) = Inr None \<and>
             Map_containsKey (mockReturnValues p') (Some (signature str c))"
  using assms by (simp add: intercept_wellFormed provider_defs split: option.splits)

theorem configured_null_not_observable_witness:
  "wellFormed getTodos \<and>
   isSettingMockValue (run apexStr
      [SetMock, Invoke (addTodo ''milk''), MockReturnValue None (Some (ABoolean True))]
      MockProvider_new) = Some False \<and>
   \<not> Map_containsKey (mockReturnValues (run apexStr
      [SetMock, Invoke (addTodo ''milk''), MockReturnValue None (Some (ABoolean True))]
      MockProvider_new)) (Some (signature apexStr getTodos)) \<and>
   (case execAll apexStr [SetMock, Invoke getTodos, MockReturnValue None None] MockProvider_new of
      Inl e \<Rightarrow> False
    | Inr p' \<Rightarrow>
        map_sum id fst (intercept apexStr getTodos p') = Inr None \<and>
        map_sum id fst (intercept apexStr getTodos (run apexStr
          [SetMock, Invoke (addTodo ''milk''), MockReturnValue None (Some (ABoolean True))]
          MockProvider_new)) = Inr None \<and>
        Map_containsKey (mockReturnValues p') (Some (signature apexStr getTodos)))"
proof -
  let ?q = "run apexStr
      [SetMock, Invoke (addTodo ''milk''), MockReturnValue None (Some (ABoolean True))]
      MockProvider_new"
  have w: "wellFormed getTodos" by simp
  have i: "isSettingMockValue ?q = Some False"
    by (simp add: run_def step_def intercept_wellFormed provider_defs)
  have u: "\<not> Map_containsKey (mockReturnValues ?q) (Some (signature apexStr getTodos))"
    by (simp add: run_def step_def intercept_wellFormed provider_defs MockProvider_new_def)
  show ?thesis
    using w i u configured_null_not_observable [OF w i u, where ph = None and p = MockProvider_new]
    by simp
qed

section \<open>The pending slot\<close>

text \<open>A \<open>setMock()\<close> on a provider that is recording changes nothing.\<close>

lemma setMock_while_recording: "isSettingMockValue p = Some True \<Longrightarrow> setMock p = p"
  by (simp add: setMock_def startSettingMockValue_def)

text \<open>No \<open>setMock()\<close> touches the pending slot or the registry.\<close>

lemma setMock_keeps_pending:
  "serializedMethodCall (setMock p) = serializedMethodCall p \<and>
   mockReturnValues (setMock p) = mockReturnValues p"
  by (simp add: setMock_def startSettingMockValue_def)





text \<open>
  The stale signature is what the next \<open>mockReturnValue\<close> commits under, though no call
  was intercepted after the second \<open>setMock()\<close>.
\<close>

lemma stale_pending_is_committed:
  "execAll apexStr [SetMock, Invoke getTodos, SetMock, MockReturnValue None (Some (ABoolean True))]
     MockProvider_new =
   Inr \<lparr>mockReturnValues = [Some ''getTodos()'' \<mapsto> Some (ABoolean True)],
        isSettingMockValue = Some False, serializedMethodCall = None\<rparr>"
  by (simp add: intercept_wellFormed provider_defs MockProvider_new_def)



section \<open>Several calls in one recording\<close>

lemma execAll_recorded_calls:
  assumes "list_all wellFormed calls" "isSettingMockValue p = Some True"
  shows "execAll str (map Invoke calls @ rest) p =
         execAll str rest
           (p\<lparr>serializedMethodCall :=
                (if calls = [] then serializedMethodCall p else Some (signature str (last calls)))\<rparr>)"
  using assms
proof (induction calls arbitrary: p)
  case Nil
  then show ?case by simp
next
  case (Cons c cs)
  then show ?case by (simp add: intercept_wellFormed)
qed

text \<open>
  Claim C8 (last call before commit wins). \<open>setMock()\<close>, then the intercepted calls
  \<open>calls\<close> (at least one), then \<open>mockReturnValue(_, v)\<close> complete without an exception.
  After the calls the pending slot holds the signature of the last one; after the commit
  the registry is the registry before with the one entry for that signature set to
  \<open>v\<close>, so the signatures of the earlier calls leave no trace.
\<close>

theorem last_call_before_commit_wins:
  assumes "calls \<noteq> []" "list_all wellFormed calls"
  shows "execAll str (SetMock # map Invoke calls) p =
           Inr (p\<lparr>isSettingMockValue := Some True,
                  serializedMethodCall := Some (signature str (last calls))\<rparr>) \<and>
         execAll str (SetMock # map Invoke calls @ [MockReturnValue ph v]) p =
           Inr (p\<lparr>mockReturnValues := (mockReturnValues p)(Some (signature str (last calls)) \<mapsto> v),
                  isSettingMockValue := Some False, serializedMethodCall := None\<rparr>)"
proof -
  have rec: "isSettingMockValue (setMock p) = Some True"
    by (simp add: provider_defs)
  have "execAll str (map Invoke calls @ []) (setMock p) =
          Inr (p\<lparr>isSettingMockValue := Some True,
                 serializedMethodCall := Some (signature str (last calls))\<rparr>)"
    using assms by (simp only: execAll_recorded_calls [OF assms(2) rec]) (simp add: provider_defs)
  moreover have "execAll str (map Invoke calls @ [MockReturnValue ph v]) (setMock p) =
          Inr (p\<lparr>mockReturnValues := (mockReturnValues p)(Some (signature str (last calls)) \<mapsto> v),
                 isSettingMockValue := Some False, serializedMethodCall := None\<rparr>)"
    using assms by (simp only: execAll_recorded_calls [OF assms(2) rec]) (simp add: provider_defs)
  ultimately show ?thesis by simp
qed

theorem last_call_before_commit_wins_witness:
  "[getTodos, addTodo ''milk''] \<noteq> [] \<and> list_all wellFormed [getTodos, addTodo ''milk''] \<and>
   execAll apexStr (SetMock # map Invoke [getTodos, addTodo ''milk'']) MockProvider_new =
   Inr \<lparr>mockReturnValues = Map.empty, isSettingMockValue = Some True,
        serializedMethodCall = Some ''addTodo(milk)''\<rparr> \<and>
   execAll apexStr
     (SetMock # map Invoke [getTodos, addTodo ''milk''] @ [MockReturnValue None (Some (ABoolean True))])
     MockProvider_new =
   Inr \<lparr>mockReturnValues = [Some ''addTodo(milk)'' \<mapsto> Some (ABoolean True)],
        isSettingMockValue = Some False, serializedMethodCall = None\<rparr>"
proof -
  have n: "[getTodos, addTodo ''milk''] \<noteq> []" by simp
  have w: "list_all wellFormed [getTodos, addTodo ''milk'']" by simp
  show ?thesis
    using n w last_call_before_commit_wins [OF n w, where str = apexStr and ph = None
        and v = "Some (ABoolean True)" and p = MockProvider_new]
    by (simp add: MockProvider_new_def)
qed

section \<open>Signatures of different argument lists\<close>

text \<open>
  Claim C9 (argument order). For every method (invocation \<open>c\<close>, whatever its name and
  parameters): after \<open>(m, [1, 2])\<close> is configured to return \<open>"x"\<close> on a provider in which
  \<open>m(2, 1)\<close> is not configured, the call \<open>m(2, 1)\<close> intercepted in Idle state returns
  \<open>null\<close>, the absence value.
\<close>

theorem argument_order_sensitive:
  assumes "wellFormed c"
    and "\<not> Map_containsKey (mockReturnValues p)
            (Some (signature apexStr (c\<lparr>listOfArgs := [Some (AInteger 2), Some (AInteger 1)]\<rparr>)))"
  shows "case execAll apexStr
                [SetMock, Invoke (c\<lparr>listOfArgs := [Some (AInteger 1), Some (AInteger 2)]\<rparr>),
                 MockReturnValue ph (Some (AString ''x''))] p of
           Inl e \<Rightarrow> False
         | Inr p' \<Rightarrow>
             intercept apexStr (c\<lparr>listOfArgs := [Some (AInteger 2), Some (AInteger 1)]\<rparr>) p'
               = Inr (None, p')"
  using assms
  by (simp add: intercept_wellFormed provider_defs signature_def serializeMethodCall_def
      split: option.splits)

theorem argument_order_sensitive_witness:
  "wellFormed add \<and>
   \<not> Map_containsKey (mockReturnValues (MockProvider_new :: apex_value MockProvider))
       (Some (signature apexStr (add\<lparr>listOfArgs := [Some (AInteger 2), Some (AInteger 1)]\<rparr>))) \<and>
   (case execAll apexStr
           [SetMock, Invoke (add\<lparr>listOfArgs := [Some (AInteger 1), Some (AInteger 2)]\<rparr>),
            MockReturnValue None (Some (AString ''x''))] MockProvider_new of
      Inl e \<Rightarrow> False
    | Inr p' \<Rightarrow>
        intercept apexStr (add\<lparr>listOfArgs := [Some (AInteger 2), Some (AInteger 1)]\<rparr>) p'
          = Inr (None, p'))"
proof -
  have w: "wellFormed add" by simp
  have u: "\<not> Map_containsKey (mockReturnValues (MockProvider_new :: apex_value MockProvider))
       (Some (signature apexStr (add\<lparr>listOfArgs := [Some (AInteger 2), Some (AInteger 1)]\<rparr>)))"
    by (simp add: MockProvider_new_def Map_containsKey_def)
  show ?thesis
    using w u argument_order_sensitive [OF w u, where ph = None] by simp
qed

text \<open>
  Claim C10 (the serializer is not injective). For every method name \<open>m\<close>, the argument
  lists \<open>["1,2"]\<close> and \<open>["1", "2"]\<close> differ and have the same signature; so, once the call
  with the first list is configured to return \<open>v\<close>, the call with the second list
  returns \<open>v\<close> too.
\<close>

theorem serializer_not_injective:
  assumes "wellFormed c"
  shows "[Some (AString ''1,2'')] \<noteq> [Some (AString ''1''), Some (AString ''2'')] \<and>
    serializeMethodCall apexStr m [Some (AString ''1,2'')] =
    serializeMethodCall apexStr m [Some (AString ''1''), Some (AString ''2'')] \<and>
    (case execAll apexStr
            [SetMock, Invoke (c\<lparr>listOfArgs := [Some (AString ''1,2'')]\<rparr>), MockReturnValue ph v] p of
       Inl e \<Rightarrow> False
     | Inr p' \<Rightarrow>
         intercept apexStr (c\<lparr>listOfArgs := [Some (AString ''1''), Some (AString ''2'')]\<rparr>) p'
           = Inr (v, p'))"
  using assms
  by (simp add: intercept_wellFormed provider_defs signature_def serializeMethodCall_def)

theorem serializer_not_injective_witness:
  "wellFormed (addTodo ''milk'') \<and>
   [Some (AString ''1,2'')] \<noteq> [Some (AString ''1''), Some (AString ''2'')] \<and>
   serializeMethodCall apexStr ''addTodo'' [Some (AString ''1,2'')] =
   serializeMethodCall apexStr ''addTodo'' [Some (AString ''1''), Some (AString ''2'')] \<and>
   (case execAll apexStr
           [SetMock, Invoke ((addTodo ''milk'')\<lparr>listOfArgs := [Some (AString ''1,2'')]\<rparr>),
            MockReturnValue None (Some (ABoolean True))] MockProvider_new of
      Inl e \<Rightarrow> False
    | Inr p' \<Rightarrow>
        intercept apexStr
          ((addTodo ''milk'')\<lparr>listOfArgs := [Some (AString ''1''), Some (AString ''2'')]\<rparr>) p'
          = Inr (Some (ABoolean True), p'))"
proof -
  have w: "wellFormed (addTodo ''milk'')" by simp
  show ?thesis
    using w serializer_not_injective [OF w, where m = "''addTodo''" and ph = None
        and v = "Some (ABoolean True)" and p = MockProvider_new]
    by simp
qed

end
